theory Spec2Isabelle
  imports Main
begin

section \<open>Invertible protocols: the data of lib/Sema/TypeCheckInvertible.cpp\<close>

text \<open>
  The file under study decides whether a nominal type conforms to an invertible protocol
  (a known protocol KP for which the type ~KP exists), synthesizes the conformance, and
  checks a Copyable conformance against the storage of the type. The C++ works on the
  compiler's AST through pointers; here a pointer to an object of an arena is the index of
  the object in that arena, a declaration is a record of the properties the file reads,
  and every function that mutates the AST or emits a diagnostic takes the context and
  returns the new one. An \<open>Inl\<close> result is the compiler stopping. \<open>llvm_unreachable\<close>
  stops it. \<open>assert\<close> stops it only in a build with assertions; compiled with
  \<open>NDEBUG\<close> the macro is empty and the statement after it runs. Every function of the
  file that asserts takes the build as its first argument \<open>assertions\<close>, and each
  \<open>assert(c)\<close> is the test \<open>assertions \<and> \<not> c\<close>.
\<close>

subsection \<open>Errors\<close>

datatype error =
    unreachable string
  | assertion_failed string

subsection \<open>Locations, protocol kinds, markings\<close>

text \<open>A \<open>SourceLoc\<close> is valid or not; \<open>None\<close> is the invalid location \<open>SourceLoc()\<close>.\<close>

type_synonym SourceLoc = "nat option"

datatype KnownProtocolKind = Copyable | Sendable | Equatable

datatype InvertibleProtocolKind = Copyable_ip

text \<open>
  Modelled from the spec: \<open>getInvertibleProtocolKind\<close> (swift/AST/KnownProtocols.h) is
  not under src/. Spec 4.4: the capability "must be one of the fixed invertible set"; the
  switch of \<open>deriveConformanceForInvertible\<close> has the one case \<open>Copyable\<close>.
\<close>

fun getInvertibleProtocolKind :: "KnownProtocolKind \<Rightarrow> InvertibleProtocolKind option" where
  "getInvertibleProtocolKind Copyable = Some Copyable_ip"
| "getInvertibleProtocolKind Sendable = None"
| "getInvertibleProtocolKind Equatable = None"

text \<open>
  Modelled from the spec: \<open>getProtocolName\<close> (swift/AST/KnownProtocols.h) is not under
  src/: the name of the protocol as it is written in source, which the diagnostics and
  fix-its of spec 4.5 insert.
\<close>

fun getProtocolName :: "KnownProtocolKind \<Rightarrow> string" where
  "getProtocolName Copyable = ''Copyable''"
| "getProtocolName Sendable = ''Sendable''"
| "getProtocolName Equatable = ''Equatable''"

text \<open>
  Modelled from the spec: \<open>InverseMarking\<close> (swift/AST/InverseMarking.h) is not under
  src/. Spec 3: a marking is "two independent three-state values", positive and inverse,
  each of \<open>None\<close>, \<open>Inferred\<close>, \<open>Explicit\<close>, and "each Explicit/Inferred value carries
  a source location". The kind \<open>None\<close> of the source is \<open>None_kind\<close> here.
\<close>

datatype Kind = None_kind | Inferred | Explicit

record Mark =
  getKind :: Kind
  getLoc :: SourceLoc

record InverseMarking =
  getInverse :: Mark
  getPositive :: Mark

subsection \<open>Types\<close>

record GenericTypeParamDecl =
  paramName :: string
  paramLoc :: SourceLoc
  paramModuleContext :: nat

text \<open>
  Modelled from the spec: the type representation (swift/AST/Types.h) is not under src/.
  These are the forms of type the file tells apart: nominal types (spec 4.5 "a type
  declaration"), generic parameters and their archetypes (spec 4.5 "one of C's own generic
  parameters"), l-values and reference-storage wrappers (spec 4.2), pack expansions,
  tuples for enum payloads, and the error type. A nominal type names its declaration by
  the declaration's id; an archetype carries its interface type.
\<close>

datatype Type =
    NominalType nat "Type list"
  | ProtocolType KnownProtocolKind
  | GenericTypeParamType nat "GenericTypeParamDecl option"
  | ArchetypeType Type
  | LValueType Type
  | ReferenceStorageType Type
  | PackExpansionType Type
  | TupleType "Type list"
  | ErrorType

text \<open>
  Modelled from the spec: \<open>TypeBase::hasError\<close> is not under src/ and the spec does not
  describe it; the source calls storage for which it holds "invalid storage". A type has
  an error when the error type occurs somewhere in it.
\<close>

fun hasError :: "Type \<Rightarrow> bool" where
  "hasError ErrorType = True"
| "hasError (NominalType n args) = list_ex hasError args"
| "hasError (ProtocolType kp) = False"
| "hasError (GenericTypeParamType i d) = False"
| "hasError (ArchetypeType t) = hasError t"
| "hasError (LValueType t) = hasError t"
| "hasError (ReferenceStorageType t) = hasError t"
| "hasError (PackExpansionType t) = hasError t"
| "hasError (TupleType ts) = list_ex hasError ts"

text \<open>
  Modelled from the spec: \<open>TypeBase::getRValueType\<close> is not under src/. Spec 4.2:
  "r-value normalization is applied": every l-value layer is replaced by its object type.
\<close>

fun getRValueType :: "Type \<Rightarrow> Type" where
  "getRValueType (LValueType t) = getRValueType t"
| "getRValueType (NominalType n args) = NominalType n (map getRValueType args)"
| "getRValueType (ArchetypeType t) = ArchetypeType t"
| "getRValueType (ReferenceStorageType t) = ReferenceStorageType (getRValueType t)"
| "getRValueType (PackExpansionType t) = PackExpansionType (getRValueType t)"
| "getRValueType (TupleType ts) = TupleType (map getRValueType ts)"
| "getRValueType t = t"

text \<open>
  Modelled from the spec: \<open>TypeBase::getReferenceStorageReferent\<close> is not under src/.
  Spec 4.2: "its reference-storage wrapper (if any) is stripped": a weak, unowned or
  unmanaged wrapper at the top of the type is dropped; any other type is returned as it
  is.
\<close>

fun getReferenceStorageReferent :: "Type \<Rightarrow> Type" where
  "getReferenceStorageReferent (ReferenceStorageType t) = t"
| "getReferenceStorageReferent t = t"



subsection \<open>Generic signatures\<close>

datatype RequirementKind = Conformance | Superclass | SameType | Layout

record Requirement =
  reqKind :: RequirementKind
  reqFirst :: Type
  reqSecond :: Type

record GenericSignature =
  getGenericParams :: "Type list"
  getRequirements :: "Requirement list"

subsection \<open>Declarations\<close>

datatype DeclContext =
    NominalDC nat
  | ExtensionDC nat
  | FileUnitDC nat
  | ModuleDC nat

record ValueDecl =
  getName :: string
  valueLoc :: SourceLoc

record VarDecl = ValueDecl +
  getInterfaceType :: Type

text \<open>
  An enum element has associated values when it has a parameter list; its argument
  interface type is the type of that list.
\<close>

record EnumElementDecl = ValueDecl +
  getArgumentInterfaceType :: "Type option"

definition hasAssociatedValues :: "EnumElementDecl \<Rightarrow> bool" where
  "hasAssociatedValues element = (getArgumentInterfaceType element \<noteq> None)"

record EnumCaseDecl =
  getElements :: "EnumElementDecl list"

text \<open>
  Modelled from the spec: the declaration classes (swift/AST/Decl.h) are not under src/.
  Spec 3 and 9: a type declaration is an aggregate (struct), a reference type (class), a
  tagged union (enum), an interface declaration (protocol) or the built-in tuple; these
  are the five kinds the file tells apart with \<open>isa\<close> and \<open>dyn_cast\<close>, each with the
  storage it declares. A nominal declaration is a record of what the file reads from it.
\<close>

datatype NominalKind =
    StructDecl "VarDecl list"
  | ClassDecl "VarDecl list"
  | EnumDecl "EnumCaseDecl list"
  | ProtocolDecl
  | BuiltinTupleDecl

record InheritedEntry =
  inheritedType :: Type
  inheritedEndLoc :: SourceLoc

record NominalTypeDecl =
  declID :: nat
  nominalKind :: NominalKind
  nominalName :: string
  nominalLoc :: SourceLoc
  getInherited :: "InheritedEntry list"
  getBracesStart :: SourceLoc
  getNoncopyableMarking :: InverseMarking
  getGenericSignature :: GenericSignature
  getDeclContext :: DeclContext
  getParentModule :: nat
  getModuleScopeContext :: DeclContext

fun isa_StructDecl :: "NominalTypeDecl \<Rightarrow> bool" where
  "isa_StructDecl nominal = (case nominalKind nominal of StructDecl ps \<Rightarrow> True | _ \<Rightarrow> False)"

fun isa_ClassDecl :: "NominalTypeDecl \<Rightarrow> bool" where
  "isa_ClassDecl nominal = (case nominalKind nominal of ClassDecl ps \<Rightarrow> True | _ \<Rightarrow> False)"

fun isa_ProtocolDecl :: "NominalTypeDecl \<Rightarrow> bool" where
  "isa_ProtocolDecl nominal = (nominalKind nominal = ProtocolDecl)"

fun isa_BuiltinTupleDecl :: "NominalTypeDecl \<Rightarrow> bool" where
  "isa_BuiltinTupleDecl nominal = (nominalKind nominal = BuiltinTupleDecl)"

fun getStoredProperties :: "NominalTypeDecl \<Rightarrow> VarDecl list" where
  "getStoredProperties nominal =
     (case nominalKind nominal of StructDecl ps \<Rightarrow> ps | ClassDecl ps \<Rightarrow> ps | _ \<Rightarrow> [])"

fun isa_EnumDecl :: "NominalTypeDecl \<Rightarrow> bool" where
  "isa_EnumDecl nominal = (case nominalKind nominal of EnumDecl allCases \<Rightarrow> True | _ \<Rightarrow> False)"

fun getAllCases :: "NominalTypeDecl \<Rightarrow> EnumCaseDecl list" where
  "getAllCases nominal =
     (case nominalKind nominal of EnumDecl allCases \<Rightarrow> allCases | _ \<Rightarrow> [])"

fun dyn_cast_FileUnit :: "DeclContext \<Rightarrow> nat option" where
  "dyn_cast_FileUnit (FileUnitDC file) = Some file"
| "dyn_cast_FileUnit dc = None"

text \<open>
  Modelled from the spec: \<open>NominalTypeDecl::getDeclaredInterfaceType\<close> is not under
  src/: the nominal type of the declaration, applied to its own generic parameters.
\<close>

definition getDeclaredInterfaceType :: "NominalTypeDecl \<Rightarrow> Type" where
  "getDeclaredInterfaceType nominal =
     NominalType (declID nominal) (getGenericParams (getGenericSignature nominal))"

subsection \<open>Diagnostics\<close>

datatype DiagID =
    add_inverse
  | note_inverse_preventing_conformance
  | note_inverse_preventing_conformance_implicit
  | note_inverse_preventing_conformance_explicit
  | noncopyable_type_member_in_copyable
  | noncopyable_but_copyable

datatype DiagArg =
    TypeArg Type
  | DeclArg nat
  | StringArg string
  | BoolArg bool

datatype FixIt =
    fixItInsert SourceLoc string
  | fixItInsertAfter SourceLoc string

record Diagnostic =
  diagLoc :: SourceLoc
  diagID :: DiagID
  diagArgs :: "DiagArg list"
  diagFixIts :: "FixIt list"

subsection \<open>Conformances, extensions and the context\<close>

datatype ProtocolConformanceState = Complete | Incomplete | Checking

datatype ConformanceEntryKind = Inherited_entry | Explicit_entry | Synthesized | Implied

record NormalProtocolConformance =
  conformanceType :: Type
  conformanceProtocol :: KnownProtocolKind
  conformanceLoc :: SourceLoc
  conformanceDeclContext :: DeclContext
  conformanceState :: ProtocolConformanceState
  conformanceIsUnchecked :: bool
  conformanceSourceKind :: "ConformanceEntryKind option"
  conformanceImplying :: "nat option"

record ExtensionDecl =
  extensionLoc :: SourceLoc
  extensionInherited :: "Type list"
  extensionParent :: DeclContext
  extensionImplicit :: bool
  extensionGenericSignature :: "GenericSignature option"
  extensionExtendedNominal :: "nat option"

text \<open>
  What the file reads and writes beyond its arguments: the declarations a type can
  resolve to, the diagnostics emitted so far, the arena of normal conformances, the
  extensions created so far, the extensions and the conformances each nominal has been
  given, the top-level declarations of each file's synthesized file, and the evaluator's
  cached extended types. Each list grows at its end.
\<close>

record ASTContext =
  Nominals :: "(nat \<times> NominalTypeDecl) list"
  Diags :: "Diagnostic list"
  NormalConformances :: "NormalProtocolConformance list"
  ExtensionDecls :: "ExtensionDecl list"
  NominalExtensions :: "(nat \<times> nat) list"
  ConformanceTable :: "(nat \<times> nat \<times> bool) list"
  SynthesizedTopLevelDecls :: "(nat \<times> nat) list"
  ExtendedTypeCache :: "(nat \<times> Type) list"

text \<open>
  Modelled from the spec: \<open>DiagnosticEngine::diagnose\<close> and \<open>Decl::diagnose\<close> are not
  under src/. Spec 6: the diagnostic sink "accepts (location, message-template,
  substitution-arguments, optional fix-it-edit) tuples"; a declaration is diagnosed at its
  own location.
\<close>

definition diagnose :: "SourceLoc \<Rightarrow> DiagID \<Rightarrow> DiagArg list \<Rightarrow> FixIt list \<Rightarrow> ASTContext \<Rightarrow> ASTContext" where
  "diagnose loc d args fixits ctx =
     ctx\<lparr>Diags := Diags ctx @ [\<lparr>diagLoc = loc, diagID = d, diagArgs = args, diagFixIts = fixits\<rparr>]\<rparr>"

text \<open>
  Modelled from the spec: \<open>TypeBase::getAnyNominal\<close> is not under src/. Spec 4.5: the
  type "resolves to" a type declaration: the declaration of a nominal type, looked up by
  its id; no declaration for any other type.
\<close>

fun getAnyNominal :: "ASTContext \<Rightarrow> Type \<Rightarrow> NominalTypeDecl option" where
  "getAnyNominal ctx (NominalType n args) = map_of (Nominals ctx) n"
| "getAnyNominal ctx t = None"


section \<open>Producing the implicit conformance\<close>

subsection \<open>The services of the AST that the derivation calls\<close>

text \<open>
  Modelled from the spec: \<open>ASTContext::getNormalConformance\<close> is not under src/. Spec 3
  has the creation of a grant "idempotent with respect to re-evaluation (memoized)": a
  request with the arguments of a conformance already in the arena returns that
  conformance, any other request allocates a new one at the end of the arena. The result
  is the conformance's index.
\<close>

definition sameRequest :: "NormalProtocolConformance \<Rightarrow> NormalProtocolConformance \<Rightarrow> bool" where
  "sameRequest a b =
     (conformanceType a = conformanceType b \<and>
      conformanceProtocol a = conformanceProtocol b \<and>
      conformanceLoc a = conformanceLoc b \<and>
      conformanceDeclContext a = conformanceDeclContext b \<and>
      conformanceState a = conformanceState b \<and>
      conformanceIsUnchecked a = conformanceIsUnchecked b)"

fun findConformance :: "NormalProtocolConformance \<Rightarrow> NormalProtocolConformance list \<Rightarrow> nat option" where
  "findConformance request [] = None"
| "findConformance request (c # cs) =
     (if sameRequest request c then Some 0
      else map_option Suc (findConformance request cs))"

definition getNormalConformance ::
  "Type \<Rightarrow> KnownProtocolKind \<Rightarrow> SourceLoc \<Rightarrow> DeclContext \<Rightarrow> ProtocolConformanceState \<Rightarrow> bool \<Rightarrow>
   ASTContext \<Rightarrow> nat \<times> ASTContext" where
  "getNormalConformance conformingType protocol loc dc state isUnchecked ctx =
     (let request = \<lparr>conformanceType = conformingType, conformanceProtocol = protocol,
                      conformanceLoc = loc, conformanceDeclContext = dc,
                      conformanceState = state, conformanceIsUnchecked = isUnchecked,
                      conformanceSourceKind = None, conformanceImplying = None\<rparr>
      in case findConformance request (NormalConformances ctx) of
           Some found \<Rightarrow> (found, ctx)
         | None \<Rightarrow> (length (NormalConformances ctx),
                     ctx\<lparr>NormalConformances := NormalConformances ctx @ [request]\<rparr>))"

text \<open>
  Modelled from the spec: \<open>NormalProtocolConformance::setSourceKindAndImplyingConformance\<close>
  is not under src/. Spec 4.4: the grant is created in a "complete, synthesized" state:
  the call writes the source kind and the implying conformance of the conformance it is
  called on.
\<close>

definition setSourceKindAndImplyingConformance ::
  "nat \<Rightarrow> ConformanceEntryKind \<Rightarrow> nat option \<Rightarrow> ASTContext \<Rightarrow> ASTContext" where
  "setSourceKindAndImplyingConformance conformance sourceKind implying ctx =
     ctx\<lparr>NormalConformances :=
           (NormalConformances ctx)
             [conformance := (NormalConformances ctx ! conformance)
                \<lparr>conformanceSourceKind := Some sourceKind, conformanceImplying := implying\<rparr>]\<rparr>"

text \<open>
  Modelled from the spec: \<open>NominalTypeDecl::registerProtocolConformance\<close> is not under
  src/. Spec 4.4 has a synthesized grant registered "on TypeDecl exactly once": a
  conformance the nominal already has is not entered again.
\<close>

definition registerProtocolConformance ::
  "NominalTypeDecl \<Rightarrow> nat \<Rightarrow> bool \<Rightarrow> ASTContext \<Rightarrow> ASTContext" where
  "registerProtocolConformance nominal conformance synthesized ctx =
     (if list_ex (\<lambda>entry. fst entry = declID nominal \<and> fst (snd entry) = conformance)
           (ConformanceTable ctx)
      then ctx
      else ctx\<lparr>ConformanceTable :=
                 ConformanceTable ctx @ [(declID nominal, conformance, synthesized)]\<rparr>)"

text \<open>
  Modelled from the spec: \<open>ExtensionDecl::create\<close> and the setters of the extension are
  not under src/. Spec 3: a synthetic scope is "an implicit, compiler-generated
  extension-like context" with "its own generic signature". \<open>create\<close> allocates a new
  extension with no generic signature and no extended nominal yet; the result is its index
  among the extensions of the context. The setters write one field each.
\<close>

definition ExtensionDecl_create ::
  "SourceLoc \<Rightarrow> Type list \<Rightarrow> DeclContext \<Rightarrow> ASTContext \<Rightarrow> nat \<times> ASTContext" where
  "ExtensionDecl_create loc inherited parent ctx =
     (length (ExtensionDecls ctx),
      ctx\<lparr>ExtensionDecls := ExtensionDecls ctx @
            [\<lparr>extensionLoc = loc, extensionInherited = inherited, extensionParent = parent,
              extensionImplicit = False, extensionGenericSignature = None,
              extensionExtendedNominal = None\<rparr>]\<rparr>)"

definition updateExtension :: "nat \<Rightarrow> (ExtensionDecl \<Rightarrow> ExtensionDecl) \<Rightarrow> ASTContext \<Rightarrow> ASTContext" where
  "updateExtension ext f ctx =
     ctx\<lparr>ExtensionDecls := (ExtensionDecls ctx)[ext := f (ExtensionDecls ctx ! ext)]\<rparr>"

definition setImplicit :: "nat \<Rightarrow> ASTContext \<Rightarrow> ASTContext" where
  "setImplicit ext = updateExtension ext (\<lambda>e. e\<lparr>extensionImplicit := True\<rparr>)"

definition setGenericSignature :: "nat \<Rightarrow> GenericSignature \<Rightarrow> ASTContext \<Rightarrow> ASTContext" where
  "setGenericSignature ext sig = updateExtension ext (\<lambda>e. e\<lparr>extensionGenericSignature := Some sig\<rparr>)"

definition setExtendedNominal :: "nat \<Rightarrow> NominalTypeDecl \<Rightarrow> ASTContext \<Rightarrow> ASTContext" where
  "setExtendedNominal ext nominal =
     updateExtension ext (\<lambda>e. e\<lparr>extensionExtendedNominal := Some (declID nominal)\<rparr>)"

text \<open>
  Modelled from the spec: \<open>Evaluator::cacheOutput\<close>, \<open>NominalTypeDecl::addExtension\<close>
  and \<open>SynthesizedFileUnit::addTopLevelDecl\<close> are not under src/. Spec 5: the top-level
  synthetic-declaration list is "append-only"; each of the three calls appends its
  argument to the list it keeps.
\<close>

definition cacheOutput_ExtendedTypeRequest :: "nat \<Rightarrow> Type \<Rightarrow> ASTContext \<Rightarrow> ASTContext" where
  "cacheOutput_ExtendedTypeRequest ext extended ctx =
     ctx\<lparr>ExtendedTypeCache := ExtendedTypeCache ctx @ [(ext, extended)]\<rparr>"

definition addExtension :: "NominalTypeDecl \<Rightarrow> nat \<Rightarrow> ASTContext \<Rightarrow> ASTContext" where
  "addExtension nominal ext ctx =
     ctx\<lparr>NominalExtensions := NominalExtensions ctx @ [(declID nominal, ext)]\<rparr>"

definition addTopLevelDecl :: "nat \<Rightarrow> nat \<Rightarrow> ASTContext \<Rightarrow> ASTContext" where
  "addTopLevelDecl file ext ctx =
     ctx\<lparr>SynthesizedTopLevelDecls := SynthesizedTopLevelDecls ctx @ [(file, ext)]\<rparr>"

subsection \<open>deriveConformanceForInvertible\<close>

text \<open>
  The lambda \<open>generateConformance\<close>: form the conformance in the given declaration
  context, complete and checked, mark it synthesized and register it on the nominal.
\<close>

definition generateConformance ::
  "NominalTypeDecl \<Rightarrow> KnownProtocolKind \<Rightarrow> DeclContext \<Rightarrow> ASTContext \<Rightarrow> nat \<times> ASTContext" where
  "generateConformance nominal proto conformanceDC ctx =
     (let (conformance, ctx1) =
            getNormalConformance (getDeclaredInterfaceType nominal) proto (nominalLoc nominal)
              conformanceDC Complete False ctx;
          ctx2 = setSourceKindAndImplyingConformance conformance Synthesized None ctx1;
          ctx3 = registerProtocolConformance nominal conformance True ctx2
      in (conformance, ctx3))"

text \<open>
  The requirements the loop over the generic parameters pushes: one conformance
  requirement for each parameter, in the order of the parameters.
\<close>

definition conformanceRequirements :: "Type list \<Rightarrow> Type \<Rightarrow> Requirement list" where
  "conformanceRequirements params protoTy =
     map (\<lambda>param. \<lparr>reqKind = Conformance, reqFirst = param, reqSecond = protoTy\<rparr>) params"

text \<open>
  The lambda \<open>generateConditionalConformance\<close>. \<open>buildGenericSignature\<close> is a service
  of the generic-signature machinery, not under src/: it is the parameter
  \<open>buildGenericSignature\<close>, called with the base signature, the added parameters and the
  added requirements.
\<close>

definition generateConditionalConformance ::
  "(GenericSignature \<Rightarrow> Type list \<Rightarrow> Requirement list \<Rightarrow> GenericSignature) \<Rightarrow>
   NominalTypeDecl \<Rightarrow> KnownProtocolKind \<Rightarrow> ASTContext \<Rightarrow> nat \<times> ASTContext" where
  "generateConditionalConformance buildGenericSignature nominal proto ctx =
     (let protoTy = ProtocolType proto;
          dc = getDeclContext nominal;
          (ext, ctx1) = ExtensionDecl_create None [protoTy] dc ctx;
          ctx2 = setImplicit ext ctx1;
          genericSig = getGenericSignature nominal;
          params = getGenericParams genericSig;
          reqs = conformanceRequirements params protoTy;
          genericSig' = buildGenericSignature genericSig [] reqs;
          ctx3 = setGenericSignature ext genericSig' ctx2;
          ctx4 = cacheOutput_ExtendedTypeRequest ext (getDeclaredInterfaceType nominal) ctx3;
          ctx5 = setExtendedNominal ext nominal ctx4;
          ctx6 = addExtension nominal ext ctx5;
          ctx7 = (case dyn_cast_FileUnit (getModuleScopeContext nominal) of
                    Some file \<Rightarrow> addTopLevelDecl file ext ctx6
                  | None \<Rightarrow> ctx6)
      in generateConformance nominal proto (ExtensionDC ext) ctx7)"

definition deriveConformanceForInvertible ::
  "bool \<Rightarrow> (GenericSignature \<Rightarrow> Type list \<Rightarrow> Requirement list \<Rightarrow> GenericSignature) \<Rightarrow>
   NominalTypeDecl \<Rightarrow> KnownProtocolKind \<Rightarrow> ASTContext \<Rightarrow> error + (nat option \<times> ASTContext)" where
  "deriveConformanceForInvertible assertions buildGenericSignature nominal kp ctx =
     (case getInvertibleProtocolKind kp of
        None \<Rightarrow> Inl (unreachable ''not an invertible protocol'')
      | Some Copyable_ip \<Rightarrow>
          (let marking = getNoncopyableMarking nominal in
           if getKind (getPositive marking) = Explicit then
             (let inverse = getInverse marking;
                  ctx1 = (if getKind inverse = Explicit
                          then diagnose (getLoc inverse) noncopyable_but_copyable
                                 [DeclArg (declID nominal)] [] ctx
                          else ctx);
                  (conformance, ctx2) = generateConformance nominal kp (NominalDC (declID nominal)) ctx1
              in Inr (Some conformance, ctx2))
           else if assertions \<and> getKind (getPositive marking) \<noteq> None_kind then
             Inl (assertion_failed ''marking.getPositive().getKind() == InverseMarking::Kind::None'')
           else
             (case getKind (getInverse marking) of
                Explicit \<Rightarrow> Inr (None, ctx)
              | Inferred \<Rightarrow>
                  (let (conformance, ctx1) =
                         generateConditionalConformance buildGenericSignature nominal kp ctx
                   in Inr (Some conformance, ctx1))
              | None_kind \<Rightarrow>
                  (let (conformance, ctx1) = generateConformance nominal kp (NominalDC (declID nominal)) ctx
                   in Inr (Some conformance, ctx1)))))"

text \<open>
  Two derivations for the same nominal and protocol, one after the other, the second in
  the context the first has left: both results and the final context.
\<close>

definition deriveTwice ::
  "bool \<Rightarrow> (GenericSignature \<Rightarrow> Type list \<Rightarrow> Requirement list \<Rightarrow> GenericSignature) \<Rightarrow>
   NominalTypeDecl \<Rightarrow> KnownProtocolKind \<Rightarrow> ASTContext \<Rightarrow>
   error + ((nat option \<times> nat option) \<times> ASTContext)" where
  "deriveTwice assertions buildGenericSignature nominal kp ctx =
     (case deriveConformanceForInvertible assertions buildGenericSignature nominal kp ctx of
        Inl e \<Rightarrow> Inl e
      | Inr (first, ctx1) \<Rightarrow>
          (case deriveConformanceForInvertible assertions buildGenericSignature nominal kp ctx1 of
             Inl e \<Rightarrow> Inl e
           | Inr (second, ctx2) \<Rightarrow> Inr ((first, second), ctx2)))"

section \<open>Visiting the storage of a nominal type\<close>

text \<open>
  \<open>StorageVisitor\<close> has two virtual call operators, one for a stored property and one
  for an enum element; a visitor is the pair of them here, each a function on the state
  \<open>'s\<close> of the visitor that may fail and otherwise says whether the walk should stop.
  \<open>DeclContext::mapTypeIntoContext\<close> belongs to the generic environment of the context
  and is not under src/: it is the parameter \<open>mapTypeIntoContext\<close>.
\<close>

text \<open>The loop over the stored properties of a struct or a class.\<close>

fun visitStoredProperties ::
  "(DeclContext \<Rightarrow> Type \<Rightarrow> Type) \<Rightarrow> (VarDecl \<Rightarrow> Type \<Rightarrow> 's \<Rightarrow> error + (bool \<times> 's)) \<Rightarrow>
   DeclContext \<Rightarrow> VarDecl list \<Rightarrow> 's \<Rightarrow> error + (bool \<times> 's)" where
  "visitStoredProperties mapTypeIntoContext onProperty dc [] s = Inr (False, s)"
| "visitStoredProperties mapTypeIntoContext onProperty dc (property # rest) s =
     (let propertyType =
            getReferenceStorageReferent
              (getRValueType (mapTypeIntoContext dc (getInterfaceType property)))
      in case onProperty property propertyType s of
           Inl e \<Rightarrow> Inl e
         | Inr (stop, s') \<Rightarrow>
             if stop then Inr (True, s')
             else visitStoredProperties mapTypeIntoContext onProperty dc rest s')"

text \<open>The inner loop of the enum walk, over the elements of one case declaration.\<close>

fun visitElements ::
  "(DeclContext \<Rightarrow> Type \<Rightarrow> Type) \<Rightarrow> (EnumElementDecl \<Rightarrow> Type \<Rightarrow> 's \<Rightarrow> error + (bool \<times> 's)) \<Rightarrow>
   DeclContext \<Rightarrow> EnumElementDecl list \<Rightarrow> 's \<Rightarrow> error + (bool \<times> 's)" where
  "visitElements mapTypeIntoContext onElement dc [] s = Inr (False, s)"
| "visitElements mapTypeIntoContext onElement dc (element # rest) s =
     (if \<not> hasAssociatedValues element then
        visitElements mapTypeIntoContext onElement dc rest s
      else
        (let elementType = mapTypeIntoContext dc (the (getArgumentInterfaceType element))
         in case onElement element elementType s of
              Inl e \<Rightarrow> Inl e
            | Inr (stop, s') \<Rightarrow>
                if stop then Inr (True, s')
                else visitElements mapTypeIntoContext onElement dc rest s'))"

text \<open>The outer loop, over the case declarations of the enum.\<close>

fun visitAllCases ::
  "(DeclContext \<Rightarrow> Type \<Rightarrow> Type) \<Rightarrow> (EnumElementDecl \<Rightarrow> Type \<Rightarrow> 's \<Rightarrow> error + (bool \<times> 's)) \<Rightarrow>
   DeclContext \<Rightarrow> EnumCaseDecl list \<Rightarrow> 's \<Rightarrow> error + (bool \<times> 's)" where
  "visitAllCases mapTypeIntoContext onElement dc [] s = Inr (False, s)"
| "visitAllCases mapTypeIntoContext onElement dc (caseDecl # rest) s =
     (case visitElements mapTypeIntoContext onElement dc (getElements caseDecl) s of
        Inl e \<Rightarrow> Inl e
      | Inr (stop, s') \<Rightarrow>
          if stop then Inr (True, s')
          else visitAllCases mapTypeIntoContext onElement dc rest s')"

definition StorageVisitor_visit ::
  "bool \<Rightarrow> (DeclContext \<Rightarrow> Type \<Rightarrow> Type) \<Rightarrow> (VarDecl \<Rightarrow> Type \<Rightarrow> 's \<Rightarrow> error + (bool \<times> 's)) \<Rightarrow>
   (EnumElementDecl \<Rightarrow> Type \<Rightarrow> 's \<Rightarrow> error + (bool \<times> 's)) \<Rightarrow>
   NominalTypeDecl \<Rightarrow> DeclContext \<Rightarrow> 's \<Rightarrow> error + (bool \<times> 's)" where
  "StorageVisitor_visit assertions mapTypeIntoContext onProperty onElement nominal dc s =
     (if isa_StructDecl nominal \<or> isa_ClassDecl nominal then
        visitStoredProperties mapTypeIntoContext onProperty dc (getStoredProperties nominal) s
      else if isa_EnumDecl nominal then
        visitAllCases mapTypeIntoContext onElement dc (getAllCases nominal) s
      else if assertions \<and> \<not> (\<not> isa_ProtocolDecl nominal \<or> \<not> isa_BuiltinTupleDecl nominal) then
        Inl (assertion_failed
               ''!isa<ProtocolDecl>(nominal) || !isa<BuiltinTupleDecl>(nominal)'')
      else Inr (False, s))"

text \<open>
  A visitor that only writes down what it is called with, and stops when its argument
  \<open>stop\<close> says so, which may depend on the member, its type and everything written
  down so far: the way to observe which types a walk hands to its visitor.
\<close>

datatype StorageMember = StoredProperty VarDecl | AssociatedValue EnumElementDecl

definition recordProperty ::
  "(VarDecl \<Rightarrow> Type \<Rightarrow> (StorageMember \<times> Type) list \<Rightarrow> bool) \<Rightarrow>
   VarDecl \<Rightarrow> Type \<Rightarrow> (StorageMember \<times> Type) list \<Rightarrow>
   error + (bool \<times> (StorageMember \<times> Type) list)" where
  "recordProperty stop property propertyType seen =
     Inr (stop property propertyType seen, seen @ [(StoredProperty property, propertyType)])"

definition recordElement ::
  "(EnumElementDecl \<Rightarrow> Type \<Rightarrow> (StorageMember \<times> Type) list \<Rightarrow> bool) \<Rightarrow>
   EnumElementDecl \<Rightarrow> Type \<Rightarrow> (StorageMember \<times> Type) list \<Rightarrow>
   error + (bool \<times> (StorageMember \<times> Type) list)" where
  "recordElement stop element elementType seen =
     Inr (stop element elementType seen, seen @ [(AssociatedValue element, elementType)])"

section \<open>Diagnosing a noncopyable member\<close>

text \<open>
  \<open>addConformanceFixIt\<close> attaches one insertion to the diagnostic in flight; here it
  returns the insertion and the caller emits the diagnostic with it.
\<close>

definition addConformanceFixIt :: "NominalTypeDecl \<Rightarrow> KnownProtocolKind \<Rightarrow> bool \<Rightarrow> FixIt" where
  "addConformanceFixIt nominal proto isInverse =
     (if getInherited nominal = [] then
        fixItInsert (getBracesStart nominal)
          ('': '' @ (if isInverse then ''~'' else []) @ getProtocolName proto)
      else
        fixItInsertAfter (inheritedEndLoc (last (getInherited nominal)))
          ('', '' @ (if isInverse then ''~'' else []) @ getProtocolName proto))"

text \<open>
  Modelled from the spec: \<open>TypeBase::getAs\<close> is not under src/. Spec 4.5: the type
  "resolves to one of C's own generic parameters": \<open>getAs_ArchetypeType\<close> gives the
  interface type of an archetype, and \<open>getAs_GenericTypeParamType\<close> the declaration of
  a generic parameter type, which may be null.
\<close>

fun getAs_ArchetypeType :: "Type \<Rightarrow> Type option" where
  "getAs_ArchetypeType (ArchetypeType interfaceType) = Some interfaceType"
| "getAs_ArchetypeType t = None"

fun getAs_GenericTypeParamType :: "Type \<Rightarrow> GenericTypeParamDecl option option" where
  "getAs_GenericTypeParamType (GenericTypeParamType i genericParamTypeDecl) = Some genericParamTypeDecl"
| "getAs_GenericTypeParamType t = None"



definition tryEmitContainmentFixits ::
  "bool \<Rightarrow> NominalTypeDecl \<Rightarrow> Type \<Rightarrow> KnownProtocolKind \<Rightarrow> ASTContext \<Rightarrow> error + ASTContext" where
  "tryEmitContainmentFixits assertions enclosingNom nonConformingTy kp ctx =
     (let parentModule = getParentModule enclosingNom;
          ctx1 = diagnose (nominalLoc enclosingNom) add_inverse
                   [DeclArg (declID enclosingNom), StringArg (getProtocolName kp)]
                   [addConformanceFixIt enclosingNom kp True] ctx
      in case getAs_ArchetypeType nonConformingTy of
           Some interfaceType \<Rightarrow>
             (case getAs_GenericTypeParamType interfaceType of
                Some (Some genericParamTypeDecl) \<Rightarrow>
                  if paramModuleContext genericParamTypeDecl = parentModule then
                    Inr (diagnose (paramLoc genericParamTypeDecl)
                           note_inverse_preventing_conformance
                           [TypeArg nonConformingTy, StringArg (getProtocolName kp)] [] ctx1)
                  else Inr ctx1
              | _ \<Rightarrow> Inr ctx1)
         | None \<Rightarrow>
             if kp = Copyable then
               (case getAnyNominal ctx nonConformingTy of
                  Some nominal \<Rightarrow>
                    if nominalLoc nominal \<noteq> None then
                      (let inv = getInverse (getNoncopyableMarking nominal);
                           loc = getLoc inv
                       in case getKind inv of
                            None_kind \<Rightarrow>
                              if assertions then
                                Inl (assertion_failed ''how did it become noncopyable then?'')
                              else Inr ctx1
                          | Inferred \<Rightarrow>
                              if assertions \<and> loc = None then Inl (assertion_failed ''loc'')
                              else Inr (diagnose loc note_inverse_preventing_conformance_implicit
                                          [DeclArg (declID nominal), StringArg (getProtocolName kp)]
                                          [] ctx1)
                          | Explicit \<Rightarrow>
                              if assertions \<and> loc = None then Inl (assertion_failed ''loc'')
                              else Inr (diagnose loc note_inverse_preventing_conformance_explicit
                                          [DeclArg (declID nominal), StringArg (getProtocolName kp)]
                                          [] ctx1))
                    else Inr ctx1
                | None \<Rightarrow> Inr ctx1)
             else Inr ctx1)"

section \<open>Checking a Copyable conformance\<close>

text \<open>
  \<open>HasNoncopyable::check\<close>, the body of both call operators of the visitor that
  \<open>checkCopyableConformance\<close> declares. \<open>TypeBase::isNoncopyable\<close> asks the conformance
  lookup, which is not under src/: it is the parameter \<open>isNoncopyable\<close>.
\<close>

definition HasNoncopyable_check ::
  "bool \<Rightarrow> (DeclContext \<Rightarrow> Type \<Rightarrow> bool) \<Rightarrow> NominalTypeDecl \<Rightarrow> DeclContext \<Rightarrow> bool \<Rightarrow>
   'a ValueDecl_scheme \<Rightarrow> Type \<Rightarrow> bool \<Rightarrow> ASTContext \<Rightarrow> error + (bool \<times> ASTContext)" where
  "HasNoncopyable_check assertions isNoncopyable Nominal DC Diagnosing storage ty isEnum ctx =
     (if hasError ty then Inr (False, ctx)
      else if \<not> isNoncopyable DC ty then Inr (False, ctx)
      else if \<not> Diagnosing then Inr (True, ctx)
      else
        (let ctx1 = diagnose (valueLoc storage) noncopyable_type_member_in_copyable
                      [TypeArg ty, BoolArg isEnum, StringArg (getName storage),
                       DeclArg (declID Nominal)] [] ctx
         in case tryEmitContainmentFixits assertions Nominal ty Copyable ctx1 of
              Inl e \<Rightarrow> Inl e
            | Inr ctx2 \<Rightarrow> Inr (True, ctx2)))"

definition HasNoncopyable_visit ::
  "bool \<Rightarrow> (DeclContext \<Rightarrow> Type \<Rightarrow> Type) \<Rightarrow> (DeclContext \<Rightarrow> Type \<Rightarrow> bool) \<Rightarrow>
   NominalTypeDecl \<Rightarrow> DeclContext \<Rightarrow> bool \<Rightarrow> ASTContext \<Rightarrow> error + (bool \<times> ASTContext)" where
  "HasNoncopyable_visit assertions mapTypeIntoContext isNoncopyable Nominal DC Diagnosing ctx =
     StorageVisitor_visit assertions mapTypeIntoContext
       (\<lambda>property propertyType.
          HasNoncopyable_check assertions isNoncopyable Nominal DC Diagnosing property propertyType False)
       (\<lambda>element elementType.
          HasNoncopyable_check assertions isNoncopyable Nominal DC Diagnosing element elementType True)
       Nominal DC ctx"

definition checkCopyableConformance ::
  "bool \<Rightarrow> (DeclContext \<Rightarrow> Type \<Rightarrow> Type) \<Rightarrow> (DeclContext \<Rightarrow> Type \<Rightarrow> bool) \<Rightarrow>
   NormalProtocolConformance \<Rightarrow> ASTContext \<Rightarrow> error + (bool \<times> ASTContext)" where
  "checkCopyableConformance assertions mapTypeIntoContext isNoncopyable conformance ctx =
     (if assertions \<and> conformanceProtocol conformance \<noteq> Copyable then
        Inl (assertion_failed ''proto->isSpecificProtocol(KnownProtocolKind::Copyable)'')
      else
        (case getAnyNominal ctx (conformanceType conformance) of
           None \<Rightarrow>
             if assertions then Inl (assertion_failed ''non-nominal with conformance?'')
             else Inr (False, ctx)
         | Some nom \<Rightarrow>
             if isa_ClassDecl nom then Inr (True, ctx)
             else if isa_ProtocolDecl nom then Inr (True, ctx)
             else if isa_BuiltinTupleDecl nom then Inl (unreachable ''TODO: BuiltinTupleDecl'')
             else
               (case HasNoncopyable_visit assertions mapTypeIntoContext isNoncopyable nom
                       (conformanceDeclContext conformance) True ctx of
                  Inl e \<Rightarrow> Inl e
                | Inr (found, ctx') \<Rightarrow> Inr (\<not> found, ctx'))))"

section \<open>Example declarations\<close>

text \<open>
  A module with one source file: a generic struct \<open>Box<T>\<close> whose markings, kind and
  module-scope context are left open, and a struct \<open>NoDup\<close> that is written
  \<open>~Copyable\<close>. \<open>mergeSignature\<close> is a signature builder that appends what it is given.
\<close>

definition paramT :: Type where
  "paramT = GenericTypeParamType 0
              (Some \<lparr>paramName = ''T'', paramLoc = Some 11, paramModuleContext = 0\<rparr>)"

definition markedAt :: "Kind \<Rightarrow> nat \<Rightarrow> Mark" where
  "markedAt k line = \<lparr>getKind = k, getLoc = (if k = None_kind then None else Some line)\<rparr>"

definition exampleNominal :: "NominalKind \<Rightarrow> Kind \<Rightarrow> Kind \<Rightarrow> DeclContext \<Rightarrow> NominalTypeDecl" where
  "exampleNominal kind positiveKind inverseKind scope =
     \<lparr>declID = 1, nominalKind = kind, nominalName = ''Box'', nominalLoc = Some 10,
      getInherited = [], getBracesStart = Some 12,
      getNoncopyableMarking = \<lparr>getInverse = markedAt inverseKind 13, getPositive = markedAt positiveKind 14\<rparr>,
      getGenericSignature = \<lparr>getGenericParams = [paramT], getRequirements = []\<rparr>,
      getDeclContext = scope, getParentModule = 0, getModuleScopeContext = scope\<rparr>"

definition noDup :: NominalTypeDecl where
  "noDup =
     \<lparr>declID = 2, nominalKind = StructDecl [], nominalName = ''NoDup'', nominalLoc = Some 20,
      getInherited = [], getBracesStart = Some 22,
      getNoncopyableMarking = \<lparr>getInverse = markedAt Explicit 21, getPositive = markedAt None_kind 0\<rparr>,
      getGenericSignature = \<lparr>getGenericParams = [], getRequirements = []\<rparr>,
      getDeclContext = FileUnitDC 0, getParentModule = 0, getModuleScopeContext = FileUnitDC 0\<rparr>"

definition contextOf :: "NominalTypeDecl list \<Rightarrow> ASTContext" where
  "contextOf nominals =
     \<lparr>Nominals = map (\<lambda>nominal. (declID nominal, nominal)) nominals, Diags = [],
      NormalConformances = [], ExtensionDecls = [], NominalExtensions = [],
      ConformanceTable = [], SynthesizedTopLevelDecls = [], ExtendedTypeCache = []\<rparr>"

text \<open>
  A declaration context without generic parameters maps every interface type to itself;
  \<open>never\<close> is the visitor's answer that lets the walk go on.
\<close>

definition sameType :: "DeclContext \<Rightarrow> Type \<Rightarrow> Type" where
  "sameType dc t = t"

definition never :: "'a \<Rightarrow> Type \<Rightarrow> 'b \<Rightarrow> bool" where
  "never member t seen = False"

definition mergeSignature :: "GenericSignature \<Rightarrow> Type list \<Rightarrow> Requirement list \<Rightarrow> GenericSignature" where
  "mergeSignature base params reqs =
     \<lparr>getGenericParams = getGenericParams base @ params,
      getRequirements = getRequirements base @ reqs\<rparr>"

text \<open>
  Members for the examples: a field whose type did not check, a field written as a weak
  reference, an enum element with one associated value and one without payload; the Copyable conformance of a nominal in the nominal itself;
  and a conformance lookup for which no type is Copyable.
\<close>

definition invalidField :: VarDecl where
  "invalidField = \<lparr>getName = ''value'', valueLoc = Some 15, getInterfaceType = ErrorType\<rparr>"

definition weakField :: VarDecl where
  "weakField = \<lparr>getName = ''owner'', valueLoc = Some 16,
                 getInterfaceType = ReferenceStorageType (NominalType 2 [])\<rparr>"

definition payloadCase :: EnumElementDecl where
  "payloadCase = \<lparr>getName = ''payload'', valueLoc = Some 17,
                   getArgumentInterfaceType = Some (TupleType [NominalType 2 []])\<rparr>"

definition plainCase :: EnumElementDecl where
  "plainCase = \<lparr>getName = ''empty'', valueLoc = Some 18, getArgumentInterfaceType = None\<rparr>"

definition conformanceOf :: "NominalTypeDecl \<Rightarrow> NormalProtocolConformance" where
  "conformanceOf nominal =
     \<lparr>conformanceType = getDeclaredInterfaceType nominal, conformanceProtocol = Copyable,
      conformanceLoc = nominalLoc nominal, conformanceDeclContext = NominalDC (declID nominal),
      conformanceState = Complete, conformanceIsUnchecked = False,
      conformanceSourceKind = Some Synthesized, conformanceImplying = None\<rparr>"

definition allNoncopyable :: "DeclContext \<Rightarrow> Type \<Rightarrow> bool" where
  "allNoncopyable dc t = True"

text \<open>
  What a derivation has left behind, next to its result: how many extensions exist, the
  extensions added to nominals, the top-level declarations of the synthesized files and
  the conformances registered on nominals.
\<close>

definition scopesOf ::
  "'a \<times> ASTContext \<Rightarrow> 'a \<times> nat \<times> (nat \<times> nat) list \<times> (nat \<times> nat) list \<times> (nat \<times> nat \<times> bool) list" where
  "scopesOf result =
     (fst result, length (ExtensionDecls (snd result)), NominalExtensions (snd result),
      SynthesizedTopLevelDecls (snd result), ConformanceTable (snd result))"

section \<open>Facts about the conformance arena\<close>

text \<open>
  A request is found again after the conformance it names has been marked synthesized,
  and a conformance appended for a request that was not found is found at the end.
\<close>

lemma findConformance_Some:
  "findConformance request cs = Some i \<Longrightarrow> i < length cs \<and> sameRequest request (cs ! i)"
  by (induction cs arbitrary: i) (auto split: if_splits)

lemma findConformance_cong:
  "map (sameRequest request) cs = map (sameRequest request) cs' \<Longrightarrow>
   findConformance request cs = findConformance request cs'"
proof (induction cs arbitrary: cs')
  case Nil
  then show ?case by simp
next
  case (Cons c cs)
  then obtain c' rest where cs': "cs' = c' # rest" by (cases cs') auto
  with Cons.prems have "sameRequest request c = sameRequest request c'"
    and "map (sameRequest request) cs = map (sameRequest request) rest" by auto
  with Cons.IH [of rest] show ?case by (simp add: cs')
qed

lemma findConformance_append_new:
  "findConformance request cs = None \<Longrightarrow> sameRequest request c \<Longrightarrow>
   findConformance request (cs @ [c]) = Some (length cs)"
  by (induction cs) (auto split: if_splits)

lemma sameRequest_refl: "sameRequest request request"
  by (simp add: sameRequest_def)

lemma sameRequest_source_kind:
  "sameRequest request (c\<lparr>conformanceSourceKind := k, conformanceImplying := i\<rparr>) = sameRequest request c"
  by (simp add: sameRequest_def)

lemma findConformance_marked:
  "findConformance request
     (cs[j := (cs ! j)\<lparr>conformanceSourceKind := k, conformanceImplying := i\<rparr>])
   = findConformance request cs"
proof (rule findConformance_cong)
  show "map (sameRequest request) (cs[j := (cs ! j)\<lparr>conformanceSourceKind := k, conformanceImplying := i\<rparr>])
        = map (sameRequest request) cs"
  proof -
    have "(map (sameRequest request) cs)[j := sameRequest request (cs ! j)]
          = map (sameRequest request) (cs[j := cs ! j])"
      by (simp only: map_update)
    then show ?thesis
      by (simp add: map_update sameRequest_source_kind)
  qed
qed

text \<open>What \<open>generateConformance\<close> leaves alone, and what it returns.\<close>

lemma generateConformance_frame:
  assumes "generateConformance nominal proto dc ctx = (c, ctx')"
  shows "Diags ctx' = Diags ctx" and "ExtensionDecls ctx' = ExtensionDecls ctx"
    and "NominalExtensions ctx' = NominalExtensions ctx"
    and "SynthesizedTopLevelDecls ctx' = SynthesizedTopLevelDecls ctx"
    and "ExtendedTypeCache ctx' = ExtendedTypeCache ctx"
    and "Nominals ctx' = Nominals ctx"
  using assms
  by (auto simp: generateConformance_def getNormalConformance_def
        setSourceKindAndImplyingConformance_def registerProtocolConformance_def Let_def
      split: option.splits if_splits)

lemma generateConformance_grant:
  assumes "generateConformance nominal proto dc ctx = (c, ctx')"
  shows "c < length (NormalConformances ctx')"
    and "conformanceDeclContext (NormalConformances ctx' ! c) = dc"
    and "conformanceProtocol (NormalConformances ctx' ! c) = proto"
    and "conformanceType (NormalConformances ctx' ! c) = getDeclaredInterfaceType nominal"
    and "conformanceState (NormalConformances ctx' ! c) = Complete"
    and "conformanceSourceKind (NormalConformances ctx' ! c) = Some Synthesized"
    and "list_ex (\<lambda>entry. fst entry = declID nominal \<and> fst (snd entry) = c) (ConformanceTable ctx')"
  using assms
  by (auto simp: generateConformance_def getNormalConformance_def
        setSourceKindAndImplyingConformance_def registerProtocolConformance_def Let_def
        sameRequest_def nth_append list_ex_iff
      split: option.splits if_splits dest!: findConformance_Some)


lemma generateConformance_again:
  assumes "generateConformance nominal proto dc ctx = (c, ctx')"
  shows "generateConformance nominal proto dc (ctx'\<lparr>Diags := d\<rparr>) = (c, ctx'\<lparr>Diags := d\<rparr>)"
proof -
  define request where "request =
    \<lparr>conformanceType = getDeclaredInterfaceType nominal, conformanceProtocol = proto,
     conformanceLoc = nominalLoc nominal, conformanceDeclContext = dc,
     conformanceState = Complete, conformanceIsUnchecked = False,
     conformanceSourceKind = None, conformanceImplying = None\<rparr>"
  define cs where "cs = NormalConformances ctx"
  define cs1 where "cs1 = (case findConformance request cs of Some i \<Rightarrow> cs | None \<Rightarrow> cs @ [request])"
  define cs2 where "cs2 = cs1[c := (cs1 ! c)\<lparr>conformanceSourceKind := Some Synthesized, conformanceImplying := None\<rparr>]"
  have c: "findConformance request cs1 = Some c" and len: "c < length cs1"
    and cs': "NormalConformances ctx' = cs2"
    and tbl: "list_ex (\<lambda>entry. fst entry = declID nominal \<and> fst (snd entry) = c) (ConformanceTable ctx')"
    using assms
    by (auto simp: generateConformance_def getNormalConformance_def
          setSourceKindAndImplyingConformance_def registerProtocolConformance_def Let_def
          request_def cs_def cs1_def cs2_def findConformance_append_new sameRequest_refl list_ex_iff
        split: option.splits if_splits dest: findConformance_Some)
  have found: "findConformance request cs2 = Some c"
    unfolding cs2_def by (simp add: findConformance_marked c)
  have same: "cs2[c := (cs2 ! c)\<lparr>conformanceSourceKind := Some Synthesized, conformanceImplying := None\<rparr>] = cs2"
    unfolding cs2_def using len by simp
  show ?thesis
    using found same tbl cs'
    by (simp add: generateConformance_def getNormalConformance_def
          setSourceKindAndImplyingConformance_def registerProtocolConformance_def Let_def
          request_def)
qed


lemma generateConditionalConformance_unfold:
  "\<exists>ctx7.
     generateConditionalConformance buildGenericSignature nominal proto ctx =
       generateConformance nominal proto (ExtensionDC (length (ExtensionDecls ctx))) ctx7 \<and>
     ExtensionDecls ctx7 = ExtensionDecls ctx @
               [\<lparr>extensionLoc = None, extensionInherited = [ProtocolType proto],
                 extensionParent = getDeclContext nominal, extensionImplicit = True,
                 extensionGenericSignature =
                   Some (buildGenericSignature (getGenericSignature nominal) []
                          (conformanceRequirements (getGenericParams (getGenericSignature nominal))
                             (ProtocolType proto))),
                 extensionExtendedNominal = Some (declID nominal)\<rparr>] \<and>
     NominalExtensions ctx7 = NominalExtensions ctx @ [(declID nominal, length (ExtensionDecls ctx))] \<and>
     SynthesizedTopLevelDecls ctx7 =
               (case dyn_cast_FileUnit (getModuleScopeContext nominal) of
                  Some file \<Rightarrow> SynthesizedTopLevelDecls ctx @ [(file, length (ExtensionDecls ctx))]
                | None \<Rightarrow> SynthesizedTopLevelDecls ctx) \<and>
     Diags ctx7 = Diags ctx \<and> NormalConformances ctx7 = NormalConformances ctx \<and>
     ConformanceTable ctx7 = ConformanceTable ctx"
proof (cases "dyn_cast_FileUnit (getModuleScopeContext nominal)")
  case None
  show ?thesis
    unfolding generateConditionalConformance_def ExtensionDecl_create_def setImplicit_def
      setGenericSignature_def setExtendedNominal_def updateExtension_def
      cacheOutput_ExtendedTypeRequest_def addExtension_def addTopLevelDecl_def Let_def None
    by (simp, rule exI, rule conjI, rule refl, simp)
next
  case (Some unit)
  show ?thesis
    unfolding generateConditionalConformance_def ExtensionDecl_create_def setImplicit_def
      setGenericSignature_def setExtendedNominal_def updateExtension_def
      cacheOutput_ExtendedTypeRequest_def addExtension_def addTopLevelDecl_def Let_def Some
    by (simp, rule exI, rule conjI, rule refl, simp)
qed

lemma generateConditionalConformance_scope:
  assumes "generateConditionalConformance buildGenericSignature nominal proto ctx = (c, ctx')"
  shows "ExtensionDecls ctx' = ExtensionDecls ctx @
               [\<lparr>extensionLoc = None, extensionInherited = [ProtocolType proto],
                 extensionParent = getDeclContext nominal, extensionImplicit = True,
                 extensionGenericSignature =
                   Some (buildGenericSignature (getGenericSignature nominal) []
                          (conformanceRequirements (getGenericParams (getGenericSignature nominal))
                             (ProtocolType proto))),
                 extensionExtendedNominal = Some (declID nominal)\<rparr>]"
    and "NominalExtensions ctx' = NominalExtensions ctx @ [(declID nominal, length (ExtensionDecls ctx))]"
    and "SynthesizedTopLevelDecls ctx' =
               (case dyn_cast_FileUnit (getModuleScopeContext nominal) of
                  Some file \<Rightarrow> SynthesizedTopLevelDecls ctx @ [(file, length (ExtensionDecls ctx))]
                | None \<Rightarrow> SynthesizedTopLevelDecls ctx)"
    and "Diags ctx' = Diags ctx"
    and "c < length (NormalConformances ctx')"
    and "conformanceProtocol (NormalConformances ctx' ! c) = proto"
    and "conformanceDeclContext (NormalConformances ctx' ! c) = ExtensionDC (length (ExtensionDecls ctx))"
    and "list_ex (\<lambda>entry. fst entry = declID nominal \<and> fst (snd entry) = c) (ConformanceTable ctx')"
proof -
  from generateConditionalConformance_unfold [of buildGenericSignature nominal proto ctx]
  obtain ctx7 where
    gen: "generateConformance nominal proto (ExtensionDC (length (ExtensionDecls ctx))) ctx7 = (c, ctx')"
    and ctx7: "ExtensionDecls ctx7 = ExtensionDecls ctx @
               [\<lparr>extensionLoc = None, extensionInherited = [ProtocolType proto],
                 extensionParent = getDeclContext nominal, extensionImplicit = True,
                 extensionGenericSignature =
                   Some (buildGenericSignature (getGenericSignature nominal) []
                          (conformanceRequirements (getGenericParams (getGenericSignature nominal))
                             (ProtocolType proto))),
                 extensionExtendedNominal = Some (declID nominal)\<rparr>]"
      "NominalExtensions ctx7 = NominalExtensions ctx @ [(declID nominal, length (ExtensionDecls ctx))]"
      "SynthesizedTopLevelDecls ctx7 =
               (case dyn_cast_FileUnit (getModuleScopeContext nominal) of
                  Some file \<Rightarrow> SynthesizedTopLevelDecls ctx @ [(file, length (ExtensionDecls ctx))]
                | None \<Rightarrow> SynthesizedTopLevelDecls ctx)"
      "Diags ctx7 = Diags ctx"
    using assms by auto
  note frame = generateConformance_frame [OF gen]
  note grant = generateConformance_grant [OF gen]
  show "ExtensionDecls ctx' = ExtensionDecls ctx @
               [\<lparr>extensionLoc = None, extensionInherited = [ProtocolType proto],
                 extensionParent = getDeclContext nominal, extensionImplicit = True,
                 extensionGenericSignature =
                   Some (buildGenericSignature (getGenericSignature nominal) []
                          (conformanceRequirements (getGenericParams (getGenericSignature nominal))
                             (ProtocolType proto))),
                 extensionExtendedNominal = Some (declID nominal)\<rparr>]"
    using frame(2) ctx7(1) by simp
  show "NominalExtensions ctx' = NominalExtensions ctx @ [(declID nominal, length (ExtensionDecls ctx))]"
    using frame(3) ctx7(2) by simp
  show "SynthesizedTopLevelDecls ctx' =
               (case dyn_cast_FileUnit (getModuleScopeContext nominal) of
                  Some file \<Rightarrow> SynthesizedTopLevelDecls ctx @ [(file, length (ExtensionDecls ctx))]
                | None \<Rightarrow> SynthesizedTopLevelDecls ctx)"
    using frame(4) ctx7(3) by simp
  show "Diags ctx' = Diags ctx"
    using frame(1) ctx7(4) by simp
  show "c < length (NormalConformances ctx')"
    and "conformanceProtocol (NormalConformances ctx' ! c) = proto"
    and "conformanceDeclContext (NormalConformances ctx' ! c) = ExtensionDC (length (ExtensionDecls ctx))"
    and "list_ex (\<lambda>entry. fst entry = declID nominal \<and> fst (snd entry) = c) (ConformanceTable ctx')"
    using grant by simp_all
qed

text \<open>The definitions a concrete derivation unfolds to, and those of the examples.\<close>

lemmas derive_defs =
  deriveConformanceForInvertible_def generateConditionalConformance_def generateConformance_def
  getNormalConformance_def setSourceKindAndImplyingConformance_def
  registerProtocolConformance_def ExtensionDecl_create_def setImplicit_def
  setGenericSignature_def setExtendedNominal_def updateExtension_def
  cacheOutput_ExtendedTypeRequest_def addExtension_def addTopLevelDecl_def
  conformanceRequirements_def getDeclaredInterfaceType_def sameRequest_def diagnose_def Let_def

lemmas example_defs = exampleNominal_def markedAt_def contextOf_def mergeSignature_def paramT_def

lemmas storage_defs = StorageVisitor_visit_def recordProperty_def recordElement_def
  hasAssociatedValues_def sameType_def never_def weakField_def payloadCase_def plainCase_def
  invalidField_def conformanceOf_def allNoncopyable_def getDeclaredInterfaceType_def

section \<open>Deriving a conformance: what the decision table gives\<close>

text \<open>
  C2. A nominal with an explicit inverse marking and no positive marking gets no Copyable
  conformance: the derivation returns the null pointer and leaves the context as it was,
  so nothing is registered on the nominal.
\<close>

theorem derive_explicit_inverse_absent:
  assumes "getKind (getPositive (getNoncopyableMarking nominal)) = None_kind"
    and "getKind (getInverse (getNoncopyableMarking nominal)) = Explicit"
  shows "deriveConformanceForInvertible assertions buildGenericSignature nominal Copyable ctx = Inr (None, ctx)"
  using assms by (simp add: deriveConformanceForInvertible_def)

theorem derive_explicit_inverse_absent_witness:
  "deriveConformanceForInvertible True mergeSignature
     (exampleNominal (StructDecl []) None_kind Explicit (FileUnitDC 0)) Copyable
     (contextOf [exampleNominal (StructDecl []) None_kind Explicit (FileUnitDC 0)])
   = Inr (None, contextOf [exampleNominal (StructDecl []) None_kind Explicit (FileUnitDC 0)])"
  using derive_explicit_inverse_absent
    [where nominal = "exampleNominal (StructDecl []) None_kind Explicit (FileUnitDC 0)"
       and assertions = True and buildGenericSignature = mergeSignature
       and ctx = "contextOf [exampleNominal (StructDecl []) None_kind Explicit (FileUnitDC 0)]"]
  by (simp add: exampleNominal_def markedAt_def)

text \<open>
  C4. When the nominal is written both \<open>Copyable\<close> and \<open>~Copyable\<close>, one call of the
  derivation emits exactly one diagnostic, \<open>noncopyable_but_copyable\<close> at the location of
  the inverse, and returns a conformance to \<open>Copyable\<close> whose declaration context is the
  nominal itself; no extension is created, and the conformance is registered on the
  nominal.
\<close>

theorem derive_contradiction_diagnosed:
  assumes "getKind (getPositive (getNoncopyableMarking nominal)) = Explicit"
    and "getKind (getInverse (getNoncopyableMarking nominal)) = Explicit"
  shows "\<exists>conformance ctx'.
     deriveConformanceForInvertible assertions buildGenericSignature nominal Copyable ctx
       = Inr (Some conformance, ctx') \<and>
     Diags ctx' = Diags ctx @
       [\<lparr>diagLoc = getLoc (getInverse (getNoncopyableMarking nominal)),
         diagID = noncopyable_but_copyable, diagArgs = [DeclArg (declID nominal)],
         diagFixIts = []\<rparr>] \<and>
     conformance < length (NormalConformances ctx') \<and>
     conformanceProtocol (NormalConformances ctx' ! conformance) = Copyable \<and>
     conformanceDeclContext (NormalConformances ctx' ! conformance) = NominalDC (declID nominal) \<and>
     list_ex (\<lambda>entry. fst entry = declID nominal \<and> fst (snd entry) = conformance) (ConformanceTable ctx') \<and>
     ExtensionDecls ctx' = ExtensionDecls ctx"
proof -
  define ctx1 where "ctx1 = diagnose (getLoc (getInverse (getNoncopyableMarking nominal)))
    noncopyable_but_copyable [DeclArg (declID nominal)] [] ctx"
  obtain conformance ctx' where
    gen: "generateConformance nominal Copyable (NominalDC (declID nominal)) ctx1 = (conformance, ctx')"
    by (cases "generateConformance nominal Copyable (NominalDC (declID nominal)) ctx1")
  have "deriveConformanceForInvertible assertions buildGenericSignature nominal Copyable ctx
          = Inr (Some conformance, ctx')"
    using assms gen by (simp add: deriveConformanceForInvertible_def ctx1_def)
  moreover have "Diags ctx' = Diags ctx1" and "ExtensionDecls ctx' = ExtensionDecls ctx1"
    using generateConformance_frame [OF gen] by simp_all
  moreover have "Diags ctx1 = Diags ctx @
       [\<lparr>diagLoc = getLoc (getInverse (getNoncopyableMarking nominal)),
         diagID = noncopyable_but_copyable, diagArgs = [DeclArg (declID nominal)],
         diagFixIts = []\<rparr>]" and "ExtensionDecls ctx1 = ExtensionDecls ctx"
    by (simp_all add: ctx1_def diagnose_def)
  ultimately show ?thesis
    using generateConformance_grant [OF gen] by auto
qed

theorem derive_contradiction_diagnosed_witness:
  "\<exists>conformance ctx'.
     deriveConformanceForInvertible True mergeSignature
       (exampleNominal (StructDecl []) Explicit Explicit (FileUnitDC 0)) Copyable (contextOf [])
       = Inr (Some conformance, ctx') \<and>
     Diags ctx' = [\<lparr>diagLoc = Some 13, diagID = noncopyable_but_copyable,
                    diagArgs = [DeclArg 1], diagFixIts = []\<rparr>] \<and>
     conformance < length (NormalConformances ctx') \<and>
     conformanceProtocol (NormalConformances ctx' ! conformance) = Copyable \<and>
     conformanceDeclContext (NormalConformances ctx' ! conformance) = NominalDC 1 \<and>
     list_ex (\<lambda>entry. fst entry = 1 \<and> fst (snd entry) = conformance) (ConformanceTable ctx') \<and>
     ExtensionDecls ctx' = []"
  using derive_contradiction_diagnosed
    [where nominal = "exampleNominal (StructDecl []) Explicit Explicit (FileUnitDC 0)"
       and assertions = True and buildGenericSignature = mergeSignature and ctx = "contextOf []"]
  by (simp add: example_defs)

text \<open>
  C3, as the code has it. When the inverse marking is inferred and there is no positive
  marking, the derivation creates one implicit extension of the nominal. Its generic
  signature is what the signature builder makes of the nominal's signature and one
  conformance requirement for each generic parameter of the nominal, in their order, each
  requiring that parameter to conform to \<open>Copyable\<close>. The extension is added to the
  nominal, it is the declaration context of the conformance returned, and the conformance
  is registered on the nominal. The extension is entered among the top-level declarations
  of the synthesized file only when the module-scope context of the nominal is a file
  unit; otherwise that list stays as it was.
\<close>

theorem derive_inferred_inverse_conditional:
  assumes "getKind (getPositive (getNoncopyableMarking nominal)) = None_kind"
    and "getKind (getInverse (getNoncopyableMarking nominal)) = Inferred"
  shows "\<exists>conformance ctx'.
     deriveConformanceForInvertible assertions buildGenericSignature nominal Copyable ctx
       = Inr (Some conformance, ctx') \<and>
     ExtensionDecls ctx' = ExtensionDecls ctx @
       [\<lparr>extensionLoc = None, extensionInherited = [ProtocolType Copyable],
         extensionParent = getDeclContext nominal, extensionImplicit = True,
         extensionGenericSignature =
           Some (buildGenericSignature (getGenericSignature nominal) []
                  (map (\<lambda>param. \<lparr>reqKind = Conformance, reqFirst = param,
                                  reqSecond = ProtocolType Copyable\<rparr>)
                     (getGenericParams (getGenericSignature nominal)))),
         extensionExtendedNominal = Some (declID nominal)\<rparr>] \<and>
     NominalExtensions ctx' = NominalExtensions ctx @ [(declID nominal, length (ExtensionDecls ctx))] \<and>
     SynthesizedTopLevelDecls ctx' =
       (case dyn_cast_FileUnit (getModuleScopeContext nominal) of
          Some file \<Rightarrow> SynthesizedTopLevelDecls ctx @ [(file, length (ExtensionDecls ctx))]
        | None \<Rightarrow> SynthesizedTopLevelDecls ctx) \<and>
     conformance < length (NormalConformances ctx') \<and>
     conformanceProtocol (NormalConformances ctx' ! conformance) = Copyable \<and>
     conformanceDeclContext (NormalConformances ctx' ! conformance)
       = ExtensionDC (length (ExtensionDecls ctx)) \<and>
     list_ex (\<lambda>entry. fst entry = declID nominal \<and> fst (snd entry) = conformance) (ConformanceTable ctx')"
proof -
  obtain conformance ctx' where
    gen: "generateConditionalConformance buildGenericSignature nominal Copyable ctx = (conformance, ctx')"
    by (cases "generateConditionalConformance buildGenericSignature nominal Copyable ctx")
  have derive: "deriveConformanceForInvertible assertions buildGenericSignature nominal Copyable ctx
          = Inr (Some conformance, ctx')"
    using assms gen by (simp add: deriveConformanceForInvertible_def)
  note scope = generateConditionalConformance_scope [OF gen]
  show ?thesis
    using derive scope(1-3) scope(5-8)
    by (simp add: conformanceRequirements_def)
qed

theorem derive_inferred_inverse_conditional_witness:
  "\<exists>conformance ctx'.
     deriveConformanceForInvertible True mergeSignature
       (exampleNominal (StructDecl []) None_kind Inferred (FileUnitDC 0)) Copyable (contextOf [])
       = Inr (Some conformance, ctx') \<and>
     ExtensionDecls ctx' =
       [\<lparr>extensionLoc = None, extensionInherited = [ProtocolType Copyable],
         extensionParent = FileUnitDC 0, extensionImplicit = True,
         extensionGenericSignature =
           Some \<lparr>getGenericParams = [paramT],
                 getRequirements = [\<lparr>reqKind = Conformance, reqFirst = paramT,
                                      reqSecond = ProtocolType Copyable\<rparr>]\<rparr>,
         extensionExtendedNominal = Some 1\<rparr>] \<and>
     NominalExtensions ctx' = [(1, 0)] \<and>
     SynthesizedTopLevelDecls ctx' = [(0, 0)] \<and>
     conformance < length (NormalConformances ctx') \<and>
     conformanceProtocol (NormalConformances ctx' ! conformance) = Copyable \<and>
     conformanceDeclContext (NormalConformances ctx' ! conformance) = ExtensionDC 0 \<and>
     list_ex (\<lambda>entry. fst entry = 1 \<and> fst (snd entry) = conformance) (ConformanceTable ctx')"
  using derive_inferred_inverse_conditional
    [where nominal = "exampleNominal (StructDecl []) None_kind Inferred (FileUnitDC 0)"
       and assertions = True and buildGenericSignature = mergeSignature and ctx = "contextOf []"]
  by (simp add: exampleNominal_def markedAt_def contextOf_def mergeSignature_def)

text \<open>
  C3, counterexample to the claim as stated. A nominal whose module-scope context is the
  module itself, not a file unit: the extension is created and the conformance returned,
  but nothing is entered among the top-level declarations.
\<close>

theorem derive_inferred_inverse_unregistered_scope:
  "map_sum id scopesOf
     (deriveConformanceForInvertible True mergeSignature
        (exampleNominal (StructDecl []) None_kind Inferred (ModuleDC 0)) Copyable (contextOf []))
   = Inr (Some 0, 1, [(1, 0)], [], [(1, 0, True)])"
  by (simp add: scopesOf_def derive_defs example_defs)

section \<open>Deriving twice\<close>

text \<open>
  C1, counterexample to the claim as stated. \<open>deriveConformanceForInvertible\<close> looks
  nothing up before it creates: for a nominal with an inferred inverse marking, the
  second call creates a second extension, adds it to the nominal and to the top-level
  declarations of the synthesized file, and returns a second conformance, which is
  registered next to the first.
\<close>

theorem derive_twice_two_scopes:
  "map_sum id scopesOf
     (deriveTwice True mergeSignature
        (exampleNominal (StructDecl []) None_kind Inferred (FileUnitDC 0)) Copyable (contextOf []))
   = Inr ((Some 0, Some 1), 2, [(1, 0), (1, 1)], [(0, 0), (0, 1)], [(1, 0, True), (1, 1, True)])"
  by (simp add: scopesOf_def deriveTwice_def derive_defs example_defs)

text \<open>
  C1, as the code has it. After a derivation that returned, a second one for the same
  nominal returns too. Unless the nominal takes the conditional path (no positive
  marking, inferred inverse marking), the second call returns what the first returned,
  and leaves the arena of conformances, the conformances registered on the nominal, the
  extensions and the top-level declarations as the first call left them. On the
  conditional path every call creates one more extension, adds it to the nominal and,
  when the module-scope context is a file unit, to the top-level declarations. (Compiled
  without assertions, a nominal whose positive marking is inferred is not stopped at the
  assertion and takes the path its inverse marking selects, the conditional one when that
  is inferred.)
\<close>

theorem derive_again:
  assumes first:
    "deriveConformanceForInvertible assertions buildGenericSignature nominal kp ctx = Inr (r1, ctx1)"
  shows "\<exists>r2 ctx2.
     deriveConformanceForInvertible assertions buildGenericSignature nominal kp ctx1
       = Inr (r2, ctx2) \<and>
     (if (getKind (getPositive (getNoncopyableMarking nominal)) = None_kind \<or>
          \<not> assertions \<and> getKind (getPositive (getNoncopyableMarking nominal)) = Inferred) \<and>
         getKind (getInverse (getNoncopyableMarking nominal)) = Inferred
      then length (ExtensionDecls ctx2) = Suc (length (ExtensionDecls ctx1)) \<and>
           NominalExtensions ctx2 =
             NominalExtensions ctx1 @ [(declID nominal, length (ExtensionDecls ctx1))] \<and>
           SynthesizedTopLevelDecls ctx2 =
             (case dyn_cast_FileUnit (getModuleScopeContext nominal) of
                Some file \<Rightarrow> SynthesizedTopLevelDecls ctx1 @ [(file, length (ExtensionDecls ctx1))]
              | None \<Rightarrow> SynthesizedTopLevelDecls ctx1)
      else r2 = r1 \<and>
           NormalConformances ctx2 = NormalConformances ctx1 \<and>
           ConformanceTable ctx2 = ConformanceTable ctx1 \<and>
           ExtensionDecls ctx2 = ExtensionDecls ctx1 \<and>
           NominalExtensions ctx2 = NominalExtensions ctx1 \<and>
           SynthesizedTopLevelDecls ctx2 = SynthesizedTopLevelDecls ctx1)"
proof -
  have kp: "kp = Copyable"
    using first by (cases kp) (simp_all add: deriveConformanceForInvertible_def)
  let ?pos = "getKind (getPositive (getNoncopyableMarking nominal))"
  let ?inv = "getKind (getInverse (getNoncopyableMarking nominal))"
  let ?self = "NominalDC (declID nominal)"
  have passed: "?pos \<noteq> Explicit \<Longrightarrow> \<not> (assertions \<and> ?pos \<noteq> None_kind)"
    using first unfolding kp
    by (auto simp: deriveConformanceForInvertible_def Let_def split: if_splits)
  have unmarked: "?pos \<noteq> Explicit \<Longrightarrow> ?pos = None_kind \<or> \<not> assertions \<and> ?pos = Inferred"
    using passed by (cases ?pos) auto
  consider (explicit) "?pos = Explicit"
    | (absent) "?pos \<noteq> Explicit" "?inv = Explicit"
    | (conditional) "?pos \<noteq> Explicit" "?inv = Inferred"
    | (assumed) "?pos \<noteq> Explicit" "?inv = None_kind"
    by (cases ?inv) auto
  then show ?thesis
  proof cases
    case explicit
    define start where "start = (if ?inv = Explicit
        then diagnose (getLoc (getInverse (getNoncopyableMarking nominal))) noncopyable_but_copyable
               [DeclArg (declID nominal)] [] ctx
        else ctx)"
    obtain c where gen: "generateConformance nominal Copyable ?self start = (c, ctx1)"
      and r1: "r1 = Some c"
      using first explicit unfolding kp start_def
      by (auto simp: deriveConformanceForInvertible_def Let_def split: prod.splits)
    obtain d where again: "(if ?inv = Explicit
        then diagnose (getLoc (getInverse (getNoncopyableMarking nominal))) noncopyable_but_copyable
               [DeclArg (declID nominal)] [] ctx1
        else ctx1) = ctx1\<lparr>Diags := d\<rparr>"
      by (cases "?inv = Explicit") (auto simp: diagnose_def intro: that [of "Diags ctx1"])
    have "deriveConformanceForInvertible assertions buildGenericSignature nominal kp ctx1
            = Inr (Some c, ctx1\<lparr>Diags := d\<rparr>)"
      using explicit again generateConformance_again [OF gen, of d] unfolding kp
      by (simp add: deriveConformanceForInvertible_def Let_def)
    with explicit r1 show ?thesis by simp
  next
    case absent
    with first kp passed show ?thesis
      by (auto simp: deriveConformanceForInvertible_def Let_def)
  next
    case conditional
    obtain c2 ctx2 where
      gen: "generateConditionalConformance buildGenericSignature nominal Copyable ctx1 = (c2, ctx2)"
      by (cases "generateConditionalConformance buildGenericSignature nominal Copyable ctx1")
    have "deriveConformanceForInvertible assertions buildGenericSignature nominal kp ctx1
            = Inr (Some c2, ctx2)"
      using conditional passed gen unfolding kp
      by (auto simp: deriveConformanceForInvertible_def Let_def)
    with conditional unmarked generateConditionalConformance_scope(1-3) [OF gen] show ?thesis
      by simp
  next
    case assumed
    obtain c where gen: "generateConformance nominal Copyable ?self ctx = (c, ctx1)"
      and r1: "r1 = Some c"
      using first assumed passed unfolding kp
      by (auto simp: deriveConformanceForInvertible_def Let_def split: prod.splits)
    have "deriveConformanceForInvertible assertions buildGenericSignature nominal kp ctx1
            = Inr (Some c, ctx1)"
      using assumed passed generateConformance_again [OF gen, of "Diags ctx1"] unfolding kp
      by (simp add: deriveConformanceForInvertible_def Let_def)
    with assumed r1 show ?thesis by simp
  qed
qed

theorem derive_again_witness:
  "\<exists>r1 ctx1 r2 ctx2.
     deriveConformanceForInvertible True mergeSignature
       (exampleNominal (StructDecl []) None_kind None_kind (FileUnitDC 0)) Copyable (contextOf [])
       = Inr (r1, ctx1) \<and>
     deriveConformanceForInvertible True mergeSignature
       (exampleNominal (StructDecl []) None_kind None_kind (FileUnitDC 0)) Copyable ctx1
       = Inr (r2, ctx2) \<and>
     r2 = r1 \<and> r1 = Some 0 \<and>
     NormalConformances ctx2 = NormalConformances ctx1 \<and>
     ConformanceTable ctx2 = ConformanceTable ctx1 \<and> ConformanceTable ctx1 = [(1, 0, True)] \<and>
     ExtensionDecls ctx2 = [] \<and> NominalExtensions ctx2 = [] \<and> SynthesizedTopLevelDecls ctx2 = []"
proof -
  let ?box = "exampleNominal (StructDecl []) None_kind None_kind (FileUnitDC 0)"
  obtain r1 ctx1 where first:
    "deriveConformanceForInvertible True mergeSignature ?box Copyable (contextOf []) = Inr (r1, ctx1)"
    and r1: "r1 = Some 0" and tbl: "ConformanceTable ctx1 = [(1, 0, True)]"
    and rest: "ExtensionDecls ctx1 = []" "NominalExtensions ctx1 = []" "SynthesizedTopLevelDecls ctx1 = []"
    by (simp add: derive_defs example_defs)
  from derive_again [OF first] first r1 tbl rest show ?thesis
    by (simp add: example_defs)
qed

section \<open>The storage walk\<close>










text \<open>
  The same on an enum: the element without payload is passed over, and the payload of
  the other reaches the visitor as the tuple type it is.
\<close>

lemma visit_enum_payload:
  "StorageVisitor_visit True sameType (recordProperty never) (recordElement never)
     (exampleNominal (EnumDecl [\<lparr>getElements = [plainCase, payloadCase]\<rparr>])
        None_kind None_kind (FileUnitDC 0)) (NominalDC 1) []
   = Inr (False, [(AssociatedValue payloadCase, TupleType [NominalType 2 []])]) \<and>
   getRValueType (getReferenceStorageReferent
     (sameType (NominalDC 1) (the (getArgumentInterfaceType payloadCase))))
   = TupleType [NominalType 2 []]"
  by (simp add: storage_defs example_defs)

text \<open>
  C7. On a protocol the walk returns false in the state it was given, whatever the
  visitor and the build are: no call operator is invoked, not even one that would stop
  the compiler.
\<close>

theorem visit_protocol_no_storage:
  assumes "isa_ProtocolDecl nominal"
  shows "StorageVisitor_visit assertions mapTypeIntoContext onProperty onElement nominal dc s = Inr (False, s)"
  using assms by (simp add: StorageVisitor_visit_def)

theorem visit_protocol_no_storage_witness:
  "StorageVisitor_visit True sameType (\<lambda>property t s. Inl (unreachable ''property''))
     (\<lambda>element t s. Inl (unreachable ''element''))
     (exampleNominal ProtocolDecl None_kind None_kind (FileUnitDC 0)) (NominalDC 1) (0::nat)
   = Inr (False, 0)"
  using visit_protocol_no_storage
    [where nominal = "exampleNominal ProtocolDecl None_kind None_kind (FileUnitDC 0)"
       and assertions = True]
  by (simp add: exampleNominal_def)

text \<open>
  C8, what the code does. On a builtin tuple declaration the walk returns false as well,
  in a build with assertions as in one without: the assertion before the final return,
  \<open>!isa<ProtocolDecl> || !isa<BuiltinTupleDecl>\<close>, holds of every declaration, since no
  declaration is of both kinds.
\<close>

theorem visit_builtin_tuple_returns:
  assumes "isa_BuiltinTupleDecl nominal"
  shows "StorageVisitor_visit assertions mapTypeIntoContext onProperty onElement nominal dc s = Inr (False, s)"
  using assms by (simp add: StorageVisitor_visit_def)

theorem visit_builtin_tuple_returns_witness:
  "StorageVisitor_visit True sameType (\<lambda>property t s. Inl (unreachable ''property''))
     (\<lambda>element t s. Inl (unreachable ''element''))
     (exampleNominal BuiltinTupleDecl None_kind None_kind (ModuleDC 0)) (NominalDC 1) (0::nat)
   = Inr (False, 0)"
  using visit_builtin_tuple_returns
    [where nominal = "exampleNominal BuiltinTupleDecl None_kind None_kind (ModuleDC 0)"
       and assertions = True]
  by (simp add: exampleNominal_def)

text \<open>
  The other half of C8: \<open>checkCopyableConformance\<close> does stop on a builtin tuple
  declaration, before any storage is visited.
\<close>

lemma check_builtin_tuple_unreachable:
  assumes "conformanceProtocol conformance = Copyable"
    and "getAnyNominal ctx (conformanceType conformance) = Some nom"
    and "isa_BuiltinTupleDecl nom"
  shows "checkCopyableConformance assertions mapTypeIntoContext isNoncopyable conformance ctx
         = Inl (unreachable ''TODO: BuiltinTupleDecl'')"
  using assms by (simp add: checkCopyableConformance_def)

section \<open>Checking a conformance against the storage\<close>

text \<open>
  C6. The Copyable conformance of a class checks: the result is true and the context is
  unchanged, whatever the stored properties of the class are, whatever the conformance
  lookup says about their types and whatever the build, so no storage is visited and
  nothing is diagnosed.
\<close>

theorem check_class_valid:
  assumes "conformanceProtocol conformance = Copyable"
    and "getAnyNominal ctx (conformanceType conformance) = Some nom"
    and "isa_ClassDecl nom"
  shows "checkCopyableConformance assertions mapTypeIntoContext isNoncopyable conformance ctx = Inr (True, ctx)"
  using assms by (simp add: checkCopyableConformance_def)

theorem check_class_valid_witness:
  "checkCopyableConformance True sameType allNoncopyable
     (conformanceOf (exampleNominal (ClassDecl [weakField]) None_kind None_kind (FileUnitDC 0)))
     (contextOf [exampleNominal (ClassDecl [weakField]) None_kind None_kind (FileUnitDC 0), noDup])
   = Inr (True,
       contextOf [exampleNominal (ClassDecl [weakField]) None_kind None_kind (FileUnitDC 0), noDup])"
  using check_class_valid
    [where conformance =
         "conformanceOf (exampleNominal (ClassDecl [weakField]) None_kind None_kind (FileUnitDC 0))"
       and ctx =
         "contextOf [exampleNominal (ClassDecl [weakField]) None_kind None_kind (FileUnitDC 0), noDup]"
       and nom = "exampleNominal (ClassDecl [weakField]) None_kind None_kind (FileUnitDC 0)"
       and assertions = True and mapTypeIntoContext = sameType and isNoncopyable = allNoncopyable]
  by (simp add: conformanceOf_def getDeclaredInterfaceType_def example_defs)

text \<open>
  C9, as the code has it. When the offending type is a nominal type whose declaration has
  a source location and whose inverse marking for \<open>Copyable\<close> is \<open>None\<close>, the tracer
  first emits the suggestion to add the inverse to the enclosing nominal and then reaches
  \<open>assert(false)\<close>, followed by \<open>break\<close>. In a build with assertions the compiler
  stops there, with "how did it become noncopyable then?". In a build without
  assertions the tracer returns, having emitted that one suggestion and no note.
\<close>

theorem tracer_unmarked_nominal:
  assumes "getAnyNominal ctx nonConformingTy = Some nominal"
    and "nominalLoc nominal \<noteq> None"
    and "getKind (getInverse (getNoncopyableMarking nominal)) = None_kind"
  shows "tryEmitContainmentFixits assertions enclosingNom nonConformingTy Copyable ctx =
     (if assertions then Inl (assertion_failed ''how did it become noncopyable then?'')
      else Inr (diagnose (nominalLoc enclosingNom) add_inverse
                  [DeclArg (declID enclosingNom), StringArg (getProtocolName Copyable)]
                  [addConformanceFixIt enclosingNom Copyable True] ctx))"
proof -
  from assms(1) obtain n args where ty: "nonConformingTy = NominalType n args"
    by (cases nonConformingTy) simp_all
  show ?thesis
    using assms by (simp add: tryEmitContainmentFixits_def ty Let_def)
qed

theorem tracer_unmarked_nominal_witness:
  "tryEmitContainmentFixits True noDup (NominalType 1 []) Copyable
     (contextOf [exampleNominal (StructDecl []) None_kind None_kind (FileUnitDC 0), noDup])
   = Inl (assertion_failed ''how did it become noncopyable then?'') \<and>
   map_sum id Diags
     (tryEmitContainmentFixits False noDup (NominalType 1 []) Copyable
        (contextOf [exampleNominal (StructDecl []) None_kind None_kind (FileUnitDC 0), noDup]))
   = Inr [\<lparr>diagLoc = Some 20, diagID = add_inverse,
            diagArgs = [DeclArg 2, StringArg ''Copyable''],
            diagFixIts = [fixItInsert (Some 22) '': ~Copyable'']\<rparr>]"
  using tracer_unmarked_nominal
    [where ctx = "contextOf [exampleNominal (StructDecl []) None_kind None_kind (FileUnitDC 0), noDup]"
       and nonConformingTy = "NominalType 1 []"
       and nominal = "exampleNominal (StructDecl []) None_kind None_kind (FileUnitDC 0)"
       and enclosingNom = noDup and assertions = True]
    tracer_unmarked_nominal
    [where ctx = "contextOf [exampleNominal (StructDecl []) None_kind None_kind (FileUnitDC 0), noDup]"
       and nonConformingTy = "NominalType 1 []"
       and nominal = "exampleNominal (StructDecl []) None_kind None_kind (FileUnitDC 0)"
       and enclosingNom = noDup and assertions = False]
  by (simp add: example_defs noDup_def diagnose_def addConformanceFixIt_def)

text \<open>
  C9, counterexample to the claim as stated. Compiled without assertions, the tracer
  given a member of such a type does not stop: it returns with the suggestion to add the
  inverse as its only diagnostic.
\<close>

theorem tracer_unmarked_nominal_returns:
  "map_sum id (map diagID \<circ> Diags)
     (tryEmitContainmentFixits False noDup (NominalType 1 []) Copyable
        (contextOf [exampleNominal (StructDecl []) None_kind None_kind (FileUnitDC 0), noDup]))
   = Inr [add_inverse]"
  by (simp add: tryEmitContainmentFixits_def example_defs noDup_def diagnose_def Let_def)

text \<open>A walk in which no call stops, and leaves the state alone, returns false.\<close>

lemma visitStoredProperties_none_stops:
  assumes "\<forall>property \<in> set properties.
     onProperty property
       (getReferenceStorageReferent (getRValueType (mapTypeIntoContext dc (getInterfaceType property)))) s
     = Inr (False, s)"
  shows "visitStoredProperties mapTypeIntoContext onProperty dc properties s = Inr (False, s)"
  using assms by (induction properties) simp_all

lemma visitElements_none_stops:
  assumes "\<forall>element \<in> set elements. hasAssociatedValues element \<longrightarrow>
     onElement element (mapTypeIntoContext dc (the (getArgumentInterfaceType element))) s
     = Inr (False, s)"
  shows "visitElements mapTypeIntoContext onElement dc elements s = Inr (False, s)"
  using assms by (induction elements) simp_all

lemma visitAllCases_none_stops:
  assumes "\<forall>caseDecl \<in> set allCases. \<forall>element \<in> set (getElements caseDecl).
     hasAssociatedValues element \<longrightarrow>
     onElement element (mapTypeIntoContext dc (the (getArgumentInterfaceType element))) s
     = Inr (False, s)"
  shows "visitAllCases mapTypeIntoContext onElement dc allCases s = Inr (False, s)"
  using assms by (induction allCases) (simp_all add: visitElements_none_stops)

lemma check_invalid_storage:
  "hasError ty \<Longrightarrow>
   HasNoncopyable_check assertions isNoncopyable Nominal DC Diagnosing storage ty isEnum ctx = Inr (False, ctx)"
  by (simp add: HasNoncopyable_check_def)

lemma check_copyable_storage:
  "\<not> isNoncopyable DC ty \<Longrightarrow>
   HasNoncopyable_check assertions isNoncopyable Nominal DC Diagnosing storage ty isEnum ctx = Inr (False, ctx)"
  by (simp add: HasNoncopyable_check_def)

text \<open>
  C10. For a member whose type has an error, \<open>HasNoncopyable::check\<close> returns false and
  emits nothing. Hence a conformance to \<open>Copyable\<close> of a nominal all of whose
  noncopyable members have erroneous types checks, with no diagnostic.
\<close>

theorem invalid_storage_ignored:
  "(hasError ty \<longrightarrow>
      HasNoncopyable_check assertions isNoncopyable Nominal DC Diagnosing storage ty isEnum ctx
        = Inr (False, ctx)) \<and>
   (conformanceProtocol conformance = Copyable \<and>
    getAnyNominal ctx (conformanceType conformance) = Some nom \<and>
    \<not> isa_BuiltinTupleDecl nom \<and>
    (\<forall>property \<in> set (getStoredProperties nom).
       isNoncopyable (conformanceDeclContext conformance)
         (getReferenceStorageReferent (getRValueType
            (mapTypeIntoContext (conformanceDeclContext conformance) (getInterfaceType property))))
       \<longrightarrow> hasError
         (getReferenceStorageReferent (getRValueType
            (mapTypeIntoContext (conformanceDeclContext conformance) (getInterfaceType property))))) \<and>
    (\<forall>caseDecl \<in> set (getAllCases nom). \<forall>element \<in> set (getElements caseDecl).
       hasAssociatedValues element \<longrightarrow>
       isNoncopyable (conformanceDeclContext conformance)
         (mapTypeIntoContext (conformanceDeclContext conformance)
            (the (getArgumentInterfaceType element)))
       \<longrightarrow> hasError
         (mapTypeIntoContext (conformanceDeclContext conformance)
            (the (getArgumentInterfaceType element))))
    \<longrightarrow> checkCopyableConformance assertions mapTypeIntoContext isNoncopyable conformance ctx
          = Inr (True, ctx))"
proof (intro conjI impI)
  assume "hasError ty"
  then show "HasNoncopyable_check assertions isNoncopyable Nominal DC Diagnosing storage ty isEnum ctx
             = Inr (False, ctx)"
    by (rule check_invalid_storage)
next
  let ?dc = "conformanceDeclContext conformance"
  assume a: "conformanceProtocol conformance = Copyable \<and>
    getAnyNominal ctx (conformanceType conformance) = Some nom \<and>
    \<not> isa_BuiltinTupleDecl nom \<and>
    (\<forall>property \<in> set (getStoredProperties nom).
       isNoncopyable ?dc
         (getReferenceStorageReferent (getRValueType (mapTypeIntoContext ?dc (getInterfaceType property))))
       \<longrightarrow> hasError
         (getReferenceStorageReferent (getRValueType (mapTypeIntoContext ?dc (getInterfaceType property))))) \<and>
    (\<forall>caseDecl \<in> set (getAllCases nom). \<forall>element \<in> set (getElements caseDecl).
       hasAssociatedValues element \<longrightarrow>
       isNoncopyable ?dc (mapTypeIntoContext ?dc (the (getArgumentInterfaceType element)))
       \<longrightarrow> hasError (mapTypeIntoContext ?dc (the (getArgumentInterfaceType element))))"
  have properties: "visitStoredProperties mapTypeIntoContext
      (\<lambda>property propertyType.
         HasNoncopyable_check assertions isNoncopyable nom ?dc True property propertyType False)
      ?dc (getStoredProperties nom) ctx = Inr (False, ctx)"
  proof (rule visitStoredProperties_none_stops, rule ballI)
    fix property assume "property \<in> set (getStoredProperties nom)"
    with a show "HasNoncopyable_check assertions isNoncopyable nom ?dc True property
       (getReferenceStorageReferent (getRValueType (mapTypeIntoContext ?dc (getInterfaceType property))))
       False ctx = Inr (False, ctx)"
      by (cases "isNoncopyable ?dc
         (getReferenceStorageReferent (getRValueType (mapTypeIntoContext ?dc (getInterfaceType property))))")
        (simp_all add: check_invalid_storage check_copyable_storage del: getStoredProperties.simps)
  qed
  have elements: "visitAllCases mapTypeIntoContext
      (\<lambda>element elementType.
         HasNoncopyable_check assertions isNoncopyable nom ?dc True element elementType True)
      ?dc (getAllCases nom) ctx = Inr (False, ctx)"
  proof (rule visitAllCases_none_stops, intro ballI impI)
    fix caseDecl element
    assume "caseDecl \<in> set (getAllCases nom)" "element \<in> set (getElements caseDecl)"
      "hasAssociatedValues element"
    with a show "HasNoncopyable_check assertions isNoncopyable nom ?dc True element
       (mapTypeIntoContext ?dc (the (getArgumentInterfaceType element))) True ctx = Inr (False, ctx)"
      by (cases "isNoncopyable ?dc (mapTypeIntoContext ?dc (the (getArgumentInterfaceType element)))")
        (simp_all add: check_invalid_storage check_copyable_storage del: getAllCases.simps)
  qed
  have "HasNoncopyable_visit assertions mapTypeIntoContext isNoncopyable nom ?dc True ctx = Inr (False, ctx)
        \<or> isa_ProtocolDecl nom"
    using properties elements a
    by (simp add: HasNoncopyable_visit_def StorageVisitor_visit_def
          del: getAllCases.simps getStoredProperties.simps)
  with a show "checkCopyableConformance assertions mapTypeIntoContext isNoncopyable conformance ctx
               = Inr (True, ctx)"
    by (auto simp: checkCopyableConformance_def)
qed

theorem invalid_storage_ignored_witness:
  "HasNoncopyable_check True allNoncopyable
     (exampleNominal (StructDecl [invalidField]) None_kind None_kind (FileUnitDC 0))
     (NominalDC 1) True invalidField ErrorType False
     (contextOf [exampleNominal (StructDecl [invalidField]) None_kind None_kind (FileUnitDC 0)])
   = Inr (False,
       contextOf [exampleNominal (StructDecl [invalidField]) None_kind None_kind (FileUnitDC 0)]) \<and>
   checkCopyableConformance True sameType allNoncopyable
     (conformanceOf (exampleNominal (StructDecl [invalidField]) None_kind None_kind (FileUnitDC 0)))
     (contextOf [exampleNominal (StructDecl [invalidField]) None_kind None_kind (FileUnitDC 0)])
   = Inr (True,
       contextOf [exampleNominal (StructDecl [invalidField]) None_kind None_kind (FileUnitDC 0)])"
  using invalid_storage_ignored
    [where ty = ErrorType and assertions = True and isNoncopyable = allNoncopyable
       and Nominal = "exampleNominal (StructDecl [invalidField]) None_kind None_kind (FileUnitDC 0)"
       and DC = "NominalDC 1" and Diagnosing = True and storage = invalidField and isEnum = False
       and ctx =
         "contextOf [exampleNominal (StructDecl [invalidField]) None_kind None_kind (FileUnitDC 0)]"
       and conformance =
         "conformanceOf (exampleNominal (StructDecl [invalidField]) None_kind None_kind (FileUnitDC 0))"
       and nom = "exampleNominal (StructDecl [invalidField]) None_kind None_kind (FileUnitDC 0)"
       and mapTypeIntoContext = sameType]
  by (simp add: storage_defs example_defs)

end
